theory Spec2Isabelle
  imports Complex_Main "HOL-Library.Sublist" "HOL-Library.AList"
begin

section \<open>JavaScript values\<close>

text \<open>
  The agent handles values of JavaScript's dynamic type: the \<open>content\<close> of a model
  message and the arguments of a tool handler. The values that JSON carries, and
  \<open>undefined\<close>, are modelled as a tree. \<open>JNum\<close> carries the integer-valued numbers;
  fractions, \<open>NaN\<close> and the infinities are floating point and outside the tree. An
  object is a plain object: the list of its own properties in property order, with
  distinct keys, and \<open>Object.prototype\<close> for prototype; no property is a function.
\<close>

datatype jsval =
    JUndefined
  | JNull
  | JBool bool
  | JNum int
  | JStr string
  | JArr "jsval list"
  | JObj "(string \<times> jsval) list"

text \<open>
  A thrown value: an \<open>Error\<close> instance with its message, a modelled value, or a value
  outside the model, of which the code uses what \<open>String\<close> does with it: to give a
  text, or to throw.
\<close>

datatype thrown = ErrorObj string | ThrownVal jsval | ThrownOther "thrown + string"

text \<open>Truthiness (\<open>ToBoolean\<close>): what \<open>!x\<close>, \<open>x ? a : b\<close> and \<open>x || y\<close> test.\<close>

fun truthy :: "jsval \<Rightarrow> bool" where
  "truthy JUndefined = False"
| "truthy JNull = False"
| "truthy (JBool b) = b"
| "truthy (JNum i) = (i \<noteq> 0)"
| "truthy (JStr s) = (s \<noteq> [])"
| "truthy (JArr xs) = True"
| "truthy (JObj kvs) = True"

text \<open>
  \<open>v?.k\<close> for a key \<open>k\<close> that no prototype defines (\<open>text\<close>): the own property of an
  object, \<open>undefined\<close> on everything else.
\<close>

fun opt_get :: "jsval \<Rightarrow> string \<Rightarrow> jsval" where
  "opt_get (JObj kvs) k = (case map_of kvs k of None \<Rightarrow> JUndefined | Some v \<Rightarrow> v)"
| "opt_get v k = JUndefined"

text \<open>\<open>k in v\<close> on an object, for such a key.\<close>

fun has_key :: "jsval \<Rightarrow> string \<Rightarrow> bool" where
  "has_key (JObj kvs) k = (map_of kvs k \<noteq> None)"
| "has_key v k = False"

text \<open>\<open>a || b\<close>.\<close>

definition js_or :: "jsval \<Rightarrow> jsval \<Rightarrow> jsval" where
  "js_or a b = (if truthy a then a else b)"

text \<open>Decimal digits of a natural number, and of an integer with its sign.\<close>

definition dec_digit :: "nat \<Rightarrow> char" where
  "dec_digit d = ''0123456789'' ! d"

fun show_nat :: "nat \<Rightarrow> string" where
  "show_nat n =
     (if n < 10 then [dec_digit n]
      else show_nat (n div 10) @ [dec_digit (n mod 10)])"

declare show_nat.simps [simp del]

definition show_int :: "int \<Rightarrow> string" where
  "show_int i = (if i < 0 then CHR ''-'' # show_nat (nat (- i)) else show_nat (nat i))"

text \<open>
  The text of a number (\<open>Number::toString\<close>, which \<open>String\<close>, a template string,
  \<open>join\<close> and \<open>JSON.stringify\<close> all use). An integer in the safe range, of magnitude
  below \<open>2^53\<close>, prints as its decimal digits. Outside that range the text is the
  shortest digits that read back as the same floating-point number, in exponent form
  from \<open>10^21\<close> on: that text is left to the runtime, as the function \<open>big\<close>.
\<close>

definition safe :: "int \<Rightarrow> bool" where
  "safe i = (- (2 ^ 53) < i \<and> i < 2 ^ 53)"

definition number_text :: "(int \<Rightarrow> string) \<Rightarrow> int \<Rightarrow> string" where
  "number_text big i = (if safe i then show_int i else big i)"

text \<open>Strings joined with a separator between neighbours.\<close>

fun join_strs :: "string \<Rightarrow> string list \<Rightarrow> string" where
  "join_strs sep [] = []"
| "join_strs sep [x] = x"
| "join_strs sep (x # y # ys) = x @ sep @ join_strs sep (y # ys)"

text \<open>A sequence of steps of which the first failure is the failure of the whole.\<close>

fun all_right :: "('e + 'a) list \<Rightarrow> 'e + 'a list" where
  "all_right [] = Inr []"
| "all_right (Inl e # rs) = Inl e"
| "all_right (Inr x # rs) = (case all_right rs of Inl e \<Rightarrow> Inl e | Inr xs \<Rightarrow> Inr (x # xs))"

text \<open>
  \<open>String(v)\<close> (\<open>ToString\<close>). An array prints as its elements joined with commas, an
  element \<open>null\<close> or \<open>undefined\<close> printing as nothing. An object is converted by its
  \<open>toString\<close>: the inherited one gives \<open>[object Object]\<close>; an own property of that
  name hides it, is not callable, and leaves no way to a primitive (\<open>valueOf\<close> returns
  the object), which is a \<open>TypeError\<close> (the message is V8's).
\<close>

definition no_primitive :: thrown where
  "no_primitive = ErrorObj ''Cannot convert object to primitive value''"

fun js_String :: "(int \<Rightarrow> string) \<Rightarrow> jsval \<Rightarrow> thrown + string" where
  "js_String big JUndefined = Inr ''undefined''"
| "js_String big JNull = Inr ''null''"
| "js_String big (JBool b) = Inr (if b then ''true'' else ''false'')"
| "js_String big (JNum i) = Inr (number_text big i)"
| "js_String big (JStr s) = Inr s"
| "js_String big (JArr xs) =
     (case all_right
             (map (\<lambda>x. if x = JUndefined \<or> x = JNull then Inr [] else js_String big x) xs) of
        Inl e \<Rightarrow> Inl e
      | Inr ts \<Rightarrow> Inr (join_strs '','' ts))"
| "js_String big (JObj kvs) =
     (if map_of kvs ''toString'' \<noteq> None then Inl no_primitive else Inr ''[object Object]'')"

text \<open>\<open>xs.join(sep)\<close> on an array of values.\<close>

definition js_join :: "(int \<Rightarrow> string) \<Rightarrow> jsval list \<Rightarrow> string \<Rightarrow> thrown + string" where
  "js_join big xs sep =
     (case all_right
             (map (\<lambda>x. if x = JUndefined \<or> x = JNull then Inr [] else js_String big x) xs) of
        Inl e \<Rightarrow> Inl e
      | Inr ts \<Rightarrow> Inr (join_strs sep ts))"

text \<open>\<open>a ?? b\<close>.\<close>

definition js_nullish :: "jsval \<Rightarrow> jsval \<Rightarrow> jsval" where
  "js_nullish a b = (if a = JUndefined \<or> a = JNull then b else a)"

subsection \<open>coerceText\<close>

text \<open>
  \<^verbatim>\<open>
  function coerceText(content) {
    if (typeof content === "string") return content;
    if (Array.isArray(content)) return content.map(part =>
        (typeof part === "string" ? part : part?.text || "")).join("");
    if (content && typeof content === "object" && "text" in content) return content.text;
    return String(content ?? "");
  }
  \<close>
  The third branch returns the \<open>text\<close> property as it is, so the result is a value, a
  string in the three other branches. \<open>join\<close> and \<open>String\<close> can throw, and then
  \<open>coerceText\<close> throws.
\<close>

definition part_value :: "jsval \<Rightarrow> jsval" where
  "part_value part =
     (case part of JStr s \<Rightarrow> part | _ \<Rightarrow> js_or (opt_get part ''text'') (JStr []))"

definition as_text :: "thrown + string \<Rightarrow> thrown + jsval" where
  "as_text r = (case r of Inl e \<Rightarrow> Inl e | Inr s \<Rightarrow> Inr (JStr s))"

fun coerceText :: "(int \<Rightarrow> string) \<Rightarrow> jsval \<Rightarrow> thrown + jsval" where
  "coerceText big (JStr s) = Inr (JStr s)"
| "coerceText big (JArr parts) = as_text (js_join big (map part_value parts) [])"
| "coerceText big (JObj kvs) =
     (if has_key (JObj kvs) ''text'' then Inr (opt_get (JObj kvs) ''text'')
      else as_text (js_String big (js_nullish (JObj kvs) (JStr []))))"
| "coerceText big v = as_text (js_String big (js_nullish v (JStr [])))"

subsection \<open>JSON.stringify\<close>

text \<open>
  \<open>JSON.stringify(v)\<close> with no indentation, on the modelled values. It has no text for
  \<open>undefined\<close> (the result is \<open>undefined\<close>, here \<open>None\<close>); inside an array
  \<open>undefined\<close> is written \<open>null\<close>, and a property whose value is \<open>undefined\<close> is left
  out. Strings carry code units below 256; the quote, the backslash and the control
  characters are escaped. On these values it does not throw; the values on which it
  does are outside the tree (\<open>foreign\<close> below).
\<close>

definition hex_digit :: "nat \<Rightarrow> char" where
  "hex_digit n = ''0123456789abcdef'' ! n"

definition json_escape :: "char \<Rightarrow> string" where
  "json_escape c =
     (if c = CHR 0x22 then [CHR 0x5C, CHR 0x22]
      else if c = CHR 0x5C then [CHR 0x5C, CHR 0x5C]
      else if c = CHR 0x08 then [CHR 0x5C, CHR ''b'']
      else if c = CHR 0x0C then [CHR 0x5C, CHR ''f'']
      else if c = CHR 0x0A then [CHR 0x5C, CHR ''n'']
      else if c = CHR 0x0D then [CHR 0x5C, CHR ''r'']
      else if c = CHR 0x09 then [CHR 0x5C, CHR ''t'']
      else if (of_char c :: nat) < 32
        then [CHR 0x5C, CHR ''u'', CHR ''0'', CHR ''0'',
              hex_digit (of_char c div 16), hex_digit (of_char c mod 16)]
      else [c])"

definition json_quote :: "string \<Rightarrow> string" where
  "json_quote s = CHR 0x22 # concat (map json_escape s) @ [CHR 0x22]"

fun JSON_stringify :: "(int \<Rightarrow> string) \<Rightarrow> jsval \<Rightarrow> string option" where
  "JSON_stringify big JUndefined = None"
| "JSON_stringify big JNull = Some ''null''"
| "JSON_stringify big (JBool b) = Some (if b then ''true'' else ''false'')"
| "JSON_stringify big (JNum i) = Some (number_text big i)"
| "JSON_stringify big (JStr s) = Some (json_quote s)"
| "JSON_stringify big (JArr xs) =
     Some (''['' @ join_strs '',''
       (map (\<lambda>x. case JSON_stringify big x of None \<Rightarrow> ''null'' | Some t \<Rightarrow> t) xs) @ '']'')"
| "JSON_stringify big (JObj kvs) =
     Some (''{'' @ join_strs '',''
       (concat (map (\<lambda>kv. case JSON_stringify big (snd kv) of
                            None \<Rightarrow> []
                          | Some t \<Rightarrow> [json_quote (fst kv) @ '':'' @ t]) kvs)) @ ''}'')"

section \<open>The data of the agent\<close>

subsection \<open>Failures and results\<close>

text \<open>
  The code describes a thrown value by \<open>e instanceof Error ? e.message : String(e)\<close>,
  and \<open>String\<close> can throw.
\<close>

fun describe :: "(int \<Rightarrow> string) \<Rightarrow> thrown \<Rightarrow> thrown + string" where
  "describe big (ErrorObj m) = Inr m"
| "describe big (ThrownVal v) = js_String big v"
| "describe big (ThrownOther r) = r"

text \<open>
  A handler may return any value: a modelled one, or one outside the model (a fraction,
  \<open>NaN\<close>, a \<open>BigInt\<close>, a function, a symbol, a \<open>Date\<close>, an object with a cycle). Of
  such a value the code uses two things: its truthiness (\<open>callTool\<close>), and what
  \<open>JSON.stringify\<close> does with it, which is to give a text, to give \<open>undefined\<close> (a
  function, a symbol) or to throw (a \<open>BigInt\<close>, a cycle). It is not a string.
\<close>

record foreign =
  f_truthy :: bool
  f_json :: "thrown + string option"

datatype result = Value jsval | Foreign foreign

text \<open>What awaiting a handler gives: its result, or what it threw.\<close>

datatype outcome = Returns result | Throws thrown

subsection \<open>Messages\<close>

text \<open>
  A tool-invocation request of an assistant message,
  \<open>{ id, function: { name, arguments } }\<close>; the code reads \<open>function\<close> with \<open>?.\<close>, so
  it and its two fields may be missing.
\<close>

record fn_ref =
  fn_name :: "string option"
  fn_arguments :: "string option"

record tool_call =
  tc_id :: string
  tc_function :: "fn_ref option"

record chat_message =
  role :: string
  content :: jsval
  tool_calls :: "tool_call list option"

text \<open>
  The transcript holds \<open>{role: "system", content}\<close>, \<open>{role: "user", content}\<close>, the
  model's messages as received, and \<open>{role: "tool", tool_call_id, content}\<close>.
\<close>

datatype message =
    Msg_system string
  | Msg_user string
  | Msg_assistant chat_message
  | Msg_tool string jsval

subsection \<open>Tools and the registry\<close>

text \<open>
  The external world (whatever the handlers, the completion endpoint and the MCP servers
  read and change) is a state of type \<open>'w\<close>: an external call takes the world and returns
  it changed. A call that never returns is outside the model. The second argument of a
  handler, a context whose only member is a logger, and the agent's own logging (console
  output when \<open>verbose\<close> is set) change nothing that the run reads; they are left out.
  A tool has a handler, as its type requires.
\<close>

record 'w tool =
  t_name :: "string option"
  t_description :: "string option"
  t_parameters :: "jsval option"
  t_handler :: "jsval \<Rightarrow> 'w \<Rightarrow> outcome \<times> 'w"

text \<open>
  \<open>this.toolRegistry = {}\<close> is a plain object: its own properties (in insertion order;
  JavaScript lists integer-like keys first, which is not modelled), and its prototype,
  which is \<open>Object.prototype\<close> until a tool is registered under the name
  \<open>__proto__\<close>: that assignment replaces the prototype by the tool and adds no own
  property.
\<close>

record 'w registry =
  own :: "(string \<times> 'w tool) list"
  proto :: "'w tool option"

definition object_prototype_keys :: "string list" where
  "object_prototype_keys =
     [''constructor'', ''__defineGetter__'', ''__defineSetter__'', ''hasOwnProperty'',
      ''__lookupGetter__'', ''__lookupSetter__'', ''isPrototypeOf'', ''propertyIsEnumerable'',
      ''toString'', ''valueOf'', ''__proto__'', ''toLocaleString'']"

text \<open>
  What \<open>this.toolRegistry[key]\<close> gives: a registered tool, a truthy value that is no tool
  (an inherited member: calling its \<open>handler\<close> is a \<open>TypeError\<close>), or a falsy value.
\<close>

datatype 'w resolved = Tool "'w tool" | Inherited | Missing

definition registry_get :: "'w registry \<Rightarrow> string \<Rightarrow> 'w resolved" where
  "registry_get reg key =
     (case map_of (own reg) key of
        Some t \<Rightarrow> Tool t
      | None \<Rightarrow>
         (case proto reg of
            None \<Rightarrow> if key \<in> set object_prototype_keys then Inherited else Missing
          | Some p \<Rightarrow>
              if key = ''__proto__'' then Tool p
              else if key = ''name'' then
                (case t_name p of None \<Rightarrow> Missing | Some n \<Rightarrow> if n = [] then Missing else Inherited)
              else if key = ''description'' then
                (case t_description p of
                   None \<Rightarrow> Missing | Some d \<Rightarrow> if d = [] then Missing else Inherited)
              else if key = ''parameters'' then
                (case t_parameters p of
                   None \<Rightarrow> Missing | Some v \<Rightarrow> if truthy v then Inherited else Missing)
              else if key = ''handler'' then Inherited
              else if key \<in> set object_prototype_keys then Inherited else Missing))"

definition registry_set :: "'w registry \<Rightarrow> string \<Rightarrow> 'w tool \<Rightarrow> 'w registry" where
  "registry_set reg key t =
     (if key = ''__proto__'' then reg\<lparr>proto := Some t\<rparr>
      else reg\<lparr>own := AList.update key t (own reg)\<rparr>)"

subsection \<open>Remote tool servers\<close>

record mcp_cfg =
  cfg_name :: string
  cfg_url :: string
  cfg_headers :: "(string \<times> string) list option"

record mcp_tool =
  mt_name :: string
  mt_description :: "string option"
  mt_inputSchema :: "jsval option"

text \<open>An \<open>MCPAdapter\<close>: its configuration, and whether \<open>this.client\<close> is set.\<close>

record adapter =
  ad_cfg :: mcp_cfg
  ad_client :: bool

subsection \<open>The agent\<close>

record 'w agent =
  system :: string
  model :: "string option"
  apiKey :: "string option"
  baseURL :: string
  maxTurns :: int
  maxToolCallsPerTurn :: int
  temperature :: rat
  customTools :: "'w tool list"
  mcpServers :: "mcp_cfg list"
  verbose :: bool
  toolRegistry :: "'w registry"
  mcpAdapters :: "adapter list"

text \<open>The options of the constructor; every one of them may be missing.\<close>

record 'w agent_opts =
  o_system :: "string option"
  o_model :: "string option"
  o_apiKey :: "string option"
  o_baseURL :: "string option"
  o_maxTurns :: "int option"
  o_maxToolCallsPerTurn :: "int option"
  o_temperature :: "rat option"
  o_tools :: "'w tool list option"
  o_mcpServers :: "mcp_cfg list option"
  o_verbose :: "bool option"

text \<open>\<open>s || d\<close> on an optional string, \<open>x ?? d\<close> on an optional value.\<close>

definition str_or :: "string option \<Rightarrow> string \<Rightarrow> string" where
  "str_or s d = (case s of None \<Rightarrow> d | Some x \<Rightarrow> if x = [] then d else x)"

definition opt_or :: "'a option \<Rightarrow> 'a \<Rightarrow> 'a" where
  "opt_or x d = (case x of None \<Rightarrow> d | Some v \<Rightarrow> v)"

text \<open>\<open>s.replace(/\/$/, "")\<close>: one trailing slash is dropped.\<close>

definition strip_slash :: "string \<Rightarrow> string" where
  "strip_slash s = (if s \<noteq> [] \<and> last s = CHR ''/'' then butlast s else s)"

definition new_Agent :: "'w agent_opts \<Rightarrow> 'w agent" where
  "new_Agent opts =
     \<lparr> system = str_or (o_system opts) [],
       model = o_model opts,
       apiKey = o_apiKey opts,
       baseURL = strip_slash (str_or (o_baseURL opts) ''https://api.openai.com/v1''),
       maxTurns = opt_or (o_maxTurns opts) 8,
       maxToolCallsPerTurn = opt_or (o_maxToolCallsPerTurn opts) 4,
       temperature = opt_or (o_temperature opts) (2 / 10),
       customTools = opt_or (o_tools opts) [],
       mcpServers = opt_or (o_mcpServers opts) [],
       verbose = opt_or (o_verbose opts) False,
       toolRegistry = \<lparr> own = [], proto = None \<rparr>,
       mcpAdapters = [] \<rparr>"

subsection \<open>The completion endpoint\<close>

record tool_spec =
  spec_type :: string
  spec_name :: string
  spec_description :: string
  spec_parameters :: jsval

record chat_request =
  rq_url :: string
  rq_authorization :: string
  rq_model :: "string option"
  rq_messages :: "message list"
  rq_tools :: "tool_spec list"
  rq_tool_choice :: string
  rq_temperature :: rat

record choice =
  ch_message :: "chat_message option"

record completion =
  choices :: "choice list option"

text \<open>
  A response of \<open>fetch\<close>: \<open>res.ok\<close>, \<open>res.status\<close>, what \<open>res.text()\<close> gives (\<open>None\<close>
  when it rejects) and what \<open>res.json()\<close> gives (a failure, or the body, \<open>None\<close> for a
  body that is \<open>null\<close>).
\<close>

record http_response =
  rs_ok :: bool
  rs_status :: int
  rs_text :: "string option"
  rs_json :: "thrown + completion option"

subsection \<open>The runtime and the state of a run\<close>

text \<open>
  What the code calls and does not define: \<open>JSON.parse\<close> (\<open>None\<close> where it throws; a
  parameter, since the texts it accepts include numbers outside \<^typ>\<open>jsval\<close>), the
  text of an integer outside the safe range (the \<open>big\<close> of \<open>number_text\<close>),
  \<open>fetch\<close>, and the three operations of the MCP SDK behind \<open>MCPAdapter\<close>
  (\<open>sdk_connect\<close> stands for the body of the \<open>try\<close> of \<open>connect\<close>).
\<close>

record 'w runtime =
  JSON_parse :: "string \<Rightarrow> jsval option"
  Number_toString :: "int \<Rightarrow> string"
  fetch :: "chat_request \<Rightarrow> 'w \<Rightarrow> (thrown + http_response) \<times> 'w"
  sdk_connect :: "mcp_cfg \<Rightarrow> 'w \<Rightarrow> thrown option \<times> 'w"
  sdk_listTools :: "mcp_cfg \<Rightarrow> 'w \<Rightarrow> (thrown + mcp_tool list option) \<times> 'w"
  sdk_callTool :: "mcp_cfg \<Rightarrow> string \<Rightarrow> jsval \<Rightarrow> 'w \<Rightarrow> outcome \<times> 'w"

text \<open>
  The trace lists the external calls of a run in the order they are made: a completion
  request with the transcript it sends, a handler invocation with the registry key and
  the arguments, a connection to a server and a listing of its tools (by server name).
  It is an observation of the run and is read by nothing.
\<close>

datatype event =
    Completion "message list"
  | Invocation string jsval
  | Connect string
  | ListTools string

record 'w st =
  world :: 'w
  trace :: "event list"

definition emit :: "event \<Rightarrow> 'w \<Rightarrow> 'w st \<Rightarrow> 'w st" where
  "emit ev w st = \<lparr> world = w, trace = trace st @ [ev] \<rparr>"

section \<open>The operations\<close>

subsection \<open>MCPAdapter\<close>

text \<open>
  \<open>connect\<close> wraps every failure of the SDK in a new \<open>Error\<close> that carries its
  description (when describing it throws, that failure is thrown instead);
  \<open>listTools\<close> gives \<open>result?.tools || []\<close>; \<open>callTool\<close> turns a falsy result into
  \<open>null\<close>. The two last ones throw when the client is not set.
\<close>

definition connect :: "'w runtime \<Rightarrow> adapter \<Rightarrow> 'w st \<Rightarrow> (thrown + adapter) \<times> 'w st" where
  "connect rt ad st =
     (case sdk_connect rt (ad_cfg ad) (world st) of
        (Some e, w) \<Rightarrow>
          (case describe (Number_toString rt) e of
             Inl x \<Rightarrow> (Inl x, emit (Connect (cfg_name (ad_cfg ad))) w st)
           | Inr d \<Rightarrow>
               (Inl (ErrorObj (''Failed to load/connect MCP SDK: '' @ d)),
                emit (Connect (cfg_name (ad_cfg ad))) w st))
      | (None, w) \<Rightarrow>
          (Inr (ad\<lparr>ad_client := True\<rparr>), emit (Connect (cfg_name (ad_cfg ad))) w st))"

definition listTools :: "'w runtime \<Rightarrow> adapter \<Rightarrow> 'w st \<Rightarrow> (thrown + mcp_tool list) \<times> 'w st" where
  "listTools rt ad st =
     (if \<not> ad_client ad then (Inl (ErrorObj ''MCP not connected''), st)
      else
        (case sdk_listTools rt (ad_cfg ad) (world st) of
           (Inl e, w) \<Rightarrow> (Inl e, emit (ListTools (cfg_name (ad_cfg ad))) w st)
         | (Inr r, w) \<Rightarrow> (Inr (opt_or r []), emit (ListTools (cfg_name (ad_cfg ad))) w st)))"

definition callTool :: "'w runtime \<Rightarrow> adapter \<Rightarrow> string \<Rightarrow> jsval \<Rightarrow> 'w \<Rightarrow> outcome \<times> 'w" where
  "callTool rt ad toolName args w =
     (if \<not> ad_client ad then (Throws (ErrorObj ''MCP not connected''), w)
      else
        (case sdk_callTool rt (ad_cfg ad) toolName args w of
           (Throws e, w') \<Rightarrow> (Throws e, w')
         | (Returns res, w') \<Rightarrow>
             (Returns (case res of
                         Value v \<Rightarrow> if \<not> truthy v then Value JNull else res
                       | Foreign f \<Rightarrow> if \<not> f_truthy f then Value JNull else res), w')))"

subsection \<open>Registration and init\<close>

definition default_schema :: jsval where
  "default_schema =
     JObj [(''type'', JStr ''object''), (''properties'', JObj []),
           (''additionalProperties'', JBool True)]"

text \<open>\<open>_registerTool\<close>: a tool with no name, or an empty one, is refused.\<close>

definition registerTool :: "'w agent \<Rightarrow> 'w tool \<Rightarrow> thrown + 'w agent" where
  "registerTool ag t =
     (case t_name t of
        None \<Rightarrow> Inl (ErrorObj ''Tool must have a name'')
      | Some n \<Rightarrow>
          if n = [] then Inl (ErrorObj ''Tool must have a name'')
          else Inr (ag\<lparr>toolRegistry := registry_set (toolRegistry ag) n t\<rparr>))"

text \<open>
  A loop of registrations stops at the first refusal; the tools registered before it
  stay in the registry.
\<close>

fun register_tools :: "'w tool list \<Rightarrow> 'w agent \<Rightarrow> thrown option \<times> 'w agent" where
  "register_tools [] ag = (None, ag)"
| "register_tools (t # ts) ag =
     (case registerTool ag t of
        Inl e \<Rightarrow> (Some e, ag)
      | Inr ag' \<Rightarrow> register_tools ts ag')"

text \<open>The registry entry made for a tool \<open>mt\<close> of the server \<open>cfg\<close>.\<close>

definition wrapped :: "'w runtime \<Rightarrow> adapter \<Rightarrow> mcp_cfg \<Rightarrow> mcp_tool \<Rightarrow> 'w tool" where
  "wrapped rt ad cfg mt =
     \<lparr> t_name = Some (cfg_name cfg @ '':'' @ mt_name mt),
       t_description =
         Some (str_or (mt_description mt)
                 (''MCP tool '' @ mt_name mt @ '' from '' @ cfg_name cfg)),
       t_parameters =
         Some (js_or (opt_or (mt_inputSchema mt) JUndefined) default_schema),
       t_handler = (\<lambda>args. callTool rt ad (mt_name mt) args) \<rparr>"

fun connect_servers ::
  "'w runtime \<Rightarrow> mcp_cfg list \<Rightarrow> 'w agent \<Rightarrow> 'w st \<Rightarrow> thrown option \<times> 'w agent \<times> 'w st" where
  "connect_servers rt [] ag st = (None, ag, st)"
| "connect_servers rt (cfg # cfgs) ag st =
     (case connect rt \<lparr> ad_cfg = cfg, ad_client = False \<rparr> st of
        (Inl e, st1) \<Rightarrow> (Some e, ag, st1)
      | (Inr ad, st1) \<Rightarrow>
          (case listTools rt ad st1 of
             (Inl e, st2) \<Rightarrow> (Some e, ag, st2)
           | (Inr mcpTools, st2) \<Rightarrow>
               (case register_tools (map (wrapped rt ad cfg) mcpTools) ag of
                  (Some e, ag1) \<Rightarrow> (Some e, ag1, st2)
                | (None, ag1) \<Rightarrow>
                    connect_servers rt cfgs
                      (ag1\<lparr>mcpAdapters := mcpAdapters ag1 @ [ad]\<rparr>) st2)))"

definition init :: "'w runtime \<Rightarrow> 'w agent \<Rightarrow> 'w st \<Rightarrow> thrown option \<times> 'w agent \<times> 'w st" where
  "init rt ag st =
     (case register_tools (customTools ag) ag of
        (Some e, ag1) \<Rightarrow> (Some e, ag1, st)
      | (None, ag1) \<Rightarrow> connect_servers rt (mcpServers ag1) ag1 st)"

subsection \<open>The model call\<close>

text \<open>
  \<open>_openAIToolsSpec\<close> reads \<open>t.name.slice(0,64)\<close> on every own entry of the registry: a
  \<open>TypeError\<close> on an entry with no name (none is registered by \<open>_registerTool\<close>).
\<close>

fun tool_specs :: "'w tool list \<Rightarrow> thrown + tool_spec list" where
  "tool_specs [] = Inr []"
| "tool_specs (t # ts) =
     (case t_name t of
        None \<Rightarrow> Inl (ErrorObj ''Cannot read properties of undefined (reading 'slice')'')
      | Some n \<Rightarrow>
         (case tool_specs ts of
            Inl e \<Rightarrow> Inl e
          | Inr specs \<Rightarrow>
              Inr (\<lparr> spec_type = ''function'',
                     spec_name = take 64 n,
                     spec_description = take 1024 (opt_or (t_description t) []),
                     spec_parameters =
                       js_or (opt_or (t_parameters t) JUndefined) default_schema \<rparr> # specs)))"

definition openAIToolsSpec :: "'w agent \<Rightarrow> thrown + tool_spec list" where
  "openAIToolsSpec ag = tool_specs (map snd (own (toolRegistry ag)))"

definition chat ::
  "'w runtime \<Rightarrow> 'w agent \<Rightarrow> message list \<Rightarrow> tool_spec list \<Rightarrow> 'w st
     \<Rightarrow> (thrown + completion option) \<times> 'w st" where
  "chat rt ag msgs tools st =
     (let payload =
            \<lparr> rq_url = baseURL ag @ ''/chat/completions'',
              rq_authorization = ''Bearer '' @ opt_or (apiKey ag) ''undefined'',
              rq_model = model ag,
              rq_messages = msgs,
              rq_tools = tools,
              rq_tool_choice = ''auto'',
              rq_temperature = temperature ag \<rparr>
      in case fetch rt payload (world st) of
           (Inl e, w) \<Rightarrow> (Inl e, emit (Completion msgs) w st)
         | (Inr res, w) \<Rightarrow>
             if \<not> rs_ok res then
               (Inl (ErrorObj (''OpenAI API error ''
                               @ number_text (Number_toString rt) (rs_status res) @ '': ''
                               @ opt_or (rs_text res) ''<no-body>'')),
                emit (Completion msgs) w st)
             else (rs_json res, emit (Completion msgs) w st))"

text \<open>\<open>res?.choices?.[0]?.message\<close>.\<close>

definition first_message :: "completion option \<Rightarrow> chat_message option" where
  "first_message res =
     (case res of
        None \<Rightarrow> None
      | Some r \<Rightarrow>
         (case choices r of
            None \<Rightarrow> None
          | Some cs \<Rightarrow> (case cs of [] \<Rightarrow> None | c # _ \<Rightarrow> ch_message c)))"

text \<open>
  The first three statements of a turn: the request, the message of its first choice,
  and the failure when there is none.
\<close>

definition next_message ::
  "'w runtime \<Rightarrow> 'w agent \<Rightarrow> message list \<Rightarrow> 'w st \<Rightarrow> (thrown + chat_message) \<times> 'w st" where
  "next_message rt ag msgs st =
     (case openAIToolsSpec ag of
        Inl e \<Rightarrow> (Inl e, st)
      | Inr specs \<Rightarrow>
         (case chat rt ag msgs specs st of
            (Inl e, st1) \<Rightarrow> (Inl e, st1)
          | (Inr res, st1) \<Rightarrow>
             (case first_message res of
                None \<Rightarrow> (Inl (ErrorObj ''No message from model''), st1)
              | Some msg \<Rightarrow> (Inr msg, st1))))"

subsection \<open>Dispatching the tool calls of a turn\<close>

text \<open>
  \<open>xs.slice(0, n)\<close>: the first \<open>n\<close> elements, and for a negative \<open>n\<close> all but the
  last \<open>-n\<close>.
\<close>

definition js_slice0 :: "'a list \<Rightarrow> int \<Rightarrow> 'a list" where
  "js_slice0 xs n = (if n < 0 then take (nat (int (length xs) + n)) xs else take (nat n) xs)"

text \<open>
  \<^verbatim>\<open>
  let args = {};
  try { args = tc.function?.arguments ? JSON.parse(tc.function.arguments) : {}; }
  catch (_) { args = { _raw: tc.function?.arguments }; }
  \<close>
\<close>

definition parse_args :: "'w runtime \<Rightarrow> string option \<Rightarrow> jsval" where
  "parse_args rt raw =
     (case raw of
        None \<Rightarrow> JObj []
      | Some r \<Rightarrow>
          if r = [] then JObj []
          else (case JSON_parse rt r of
                  Some v \<Rightarrow> v
                | None \<Rightarrow> JObj [(''_raw'', JStr r)]))"

text \<open>
  \<open>tc.function?.name\<close> as a property key and inside a template string:
  \<open>undefined\<close> reads \<open>"undefined"\<close>.
\<close>

definition prop_key :: "string option \<Rightarrow> string" where
  "prop_key toolName = opt_or toolName ''undefined''"

text \<open>
  \<open>await tool.handler(args, ctx)\<close> inside its \<open>try\<close>. On an inherited member of the
  registry \<open>tool.handler\<close> is \<open>undefined\<close> and the call is a \<open>TypeError\<close> (the message
  is V8's); no handler runs.
\<close>

definition not_a_function :: string where
  "not_a_function = ''tool.handler is not a function''"

fun invoke :: "'w resolved \<Rightarrow> string \<Rightarrow> jsval \<Rightarrow> 'w st \<Rightarrow> outcome \<times> 'w st" where
  "invoke (Tool t) key args st =
     (case t_handler t args (world st) of (oc, w) \<Rightarrow> (oc, emit (Invocation key args) w st))"
| "invoke Inherited key args st = (Throws (ErrorObj not_a_function), st)"
| "invoke Missing key args st = (Throws (ErrorObj not_a_function), st)"

text \<open>
  \<^verbatim>\<open>
  const toolContent = error ? `__error__: ${error}`
    : (typeof result === "string" ? result : JSON.stringify(result));
  \<close>
  where \<open>error\<close> is \<open>null\<close> or the description of what the handler threw, and \<open>result\<close>
  is \<open>undefined\<close> when it threw. \<open>JSON.stringify\<close> throws on some results.
\<close>

definition toolContent :: "(int \<Rightarrow> string) \<Rightarrow> string option \<Rightarrow> result \<Rightarrow> thrown + jsval" where
  "toolContent big error res =
     (if str_or error [] \<noteq> [] then Inr (JStr (''__error__: '' @ str_or error []))
      else (case res of
              Value v \<Rightarrow>
                (case v of
                   JStr s \<Rightarrow> Inr v
                 | _ \<Rightarrow> Inr (case JSON_stringify big v of None \<Rightarrow> JUndefined | Some s \<Rightarrow> JStr s))
            | Foreign f \<Rightarrow>
                (case f_json f of
                   Inl e \<Rightarrow> Inl e
                 | Inr None \<Rightarrow> Inr JUndefined
                 | Inr (Some s) \<Rightarrow> Inr (JStr s))))"

text \<open>
  From the end of the handler call to the content of the tool message:
  \<^verbatim>\<open>
  let result; let error = null;
  try { result = await tool.handler(...); }
  catch (e) { error = e instanceof Error ? e.message : String(e); ... }
  const toolContent = ...;
  \<close>
  The \<open>try\<close> covers the call alone: \<open>String(e)\<close> in the handler of the failure and
  \<open>JSON.stringify(result)\<close> after it are outside, and what they throw leaves \<open>run\<close>.
\<close>

definition reply :: "(int \<Rightarrow> string) \<Rightarrow> outcome \<Rightarrow> thrown + jsval" where
  "reply big oc =
     (case oc of
        Throws e \<Rightarrow>
          (case describe big e of
             Inl x \<Rightarrow> Inl x
           | Inr d \<Rightarrow> toolContent big (Some d) (Value JUndefined))
      | Returns res \<Rightarrow> toolContent big None res)"

text \<open>
  The body of \<open>for (const tc of toExecute)\<close>, with \<open>tc.function?.name\<close> and
  \<open>tc.function?.arguments\<close>. It pushes one tool message, or throws (\<open>Some\<close>) and
  pushes none.
\<close>

definition tc_name :: "tool_call \<Rightarrow> string option" where
  "tc_name tc = (case tc_function tc of None \<Rightarrow> None | Some f \<Rightarrow> fn_name f)"

definition tc_arguments :: "tool_call \<Rightarrow> string option" where
  "tc_arguments tc = (case tc_function tc of None \<Rightarrow> None | Some f \<Rightarrow> fn_arguments f)"

definition exec_tool_call ::
  "'w runtime \<Rightarrow> 'w agent \<Rightarrow> tool_call \<Rightarrow> message list \<Rightarrow> 'w st
     \<Rightarrow> thrown option \<times> message list \<times> 'w st" where
  "exec_tool_call rt ag tc msgs st =
     (let toolName = tc_name tc;
          args = parse_args rt (tc_arguments tc);
          tool = registry_get (toolRegistry ag) (prop_key toolName)
      in case tool of
           Missing \<Rightarrow>
             (None,
              msgs @ [Msg_tool (tc_id tc) (JStr (''Tool '' @ prop_key toolName @ '' not found.''))],
              st)
         | _ \<Rightarrow>
             (case invoke tool (prop_key toolName) args st of
                (oc, st1) \<Rightarrow>
                  (case reply (Number_toString rt) oc of
                     Inl e \<Rightarrow> (Some e, msgs, st1)
                   | Inr c \<Rightarrow> (None, msgs @ [Msg_tool (tc_id tc) c], st1))))"

text \<open>The \<open>for\<close> loop: a throw ends it.\<close>

fun exec_tool_calls ::
  "'w runtime \<Rightarrow> 'w agent \<Rightarrow> tool_call list \<Rightarrow> message list \<Rightarrow> 'w st
     \<Rightarrow> thrown option \<times> message list \<times> 'w st" where
  "exec_tool_calls rt ag [] msgs st = (None, msgs, st)"
| "exec_tool_calls rt ag (tc # tcs) msgs st =
     (case exec_tool_call rt ag tc msgs st of
        (Some e, msgs1, st1) \<Rightarrow> (Some e, msgs1, st1)
      | (None, msgs1, st1) \<Rightarrow> exec_tool_calls rt ag tcs msgs1 st1)"

subsection \<open>The loop\<close>

record run_opts =
  returnMessages :: bool

record run_result =
  r_text :: jsval
  r_messages :: "message list option"

definition sentinel :: string where
  "sentinel = ''[Stopped: maxTurns reached without a final answer]''"

text \<open>
  \<open>runOpts?.returnMessages ? { text, messages } : { text }\<close>: the transcript is part
  of the result only on request.
\<close>

definition returned :: "run_opts option \<Rightarrow> message list \<Rightarrow> message list option" where
  "returned runOpts msgs =
     (case runOpts of
        None \<Rightarrow> None
      | Some ro \<Rightarrow> if returnMessages ro then Some msgs else None)"

text \<open>
  One pass through the body of \<open>while (turn < this.maxTurns)\<close>: it ends in \<open>continue\<close>,
  or leaves \<open>run\<close> by \<open>return\<close> or \<open>throw\<close>. Both carry the transcript and the state
  reached.
\<close>

datatype 'w step =
    Continue (transcript: "message list") (state: "'w st")
  | Leave (result: "thrown + run_result") (transcript: "message list") (state: "'w st")

definition turn_body ::
  "'w runtime \<Rightarrow> 'w agent \<Rightarrow> run_opts option \<Rightarrow> message list \<Rightarrow> 'w st \<Rightarrow> 'w step" where
  "turn_body rt ag runOpts msgs st =
     (case next_message rt ag msgs st of
        (Inl e, st1) \<Rightarrow> Leave (Inl e) msgs st1
      | (Inr msg, st1) \<Rightarrow>
          (let msgs1 = msgs @ [Msg_assistant msg];
               toolCalls = opt_or (tool_calls msg) []
           in if toolCalls \<noteq> [] then
                (case exec_tool_calls rt ag (js_slice0 toolCalls (maxToolCallsPerTurn ag))
                        msgs1 st1 of
                   (Some e, msgs2, st2) \<Rightarrow> Leave (Inl e) msgs2 st2
                 | (None, msgs2, st2) \<Rightarrow> Continue msgs2 st2)
              else
                (case coerceText (Number_toString rt) (content msg) of
                   Inl e \<Rightarrow> Leave (Inl e) msgs1 st1
                 | Inr text \<Rightarrow>
                     Leave (Inr \<lparr> r_text = text, r_messages = returned runOpts msgs1 \<rparr>)
                           msgs1 st1)))"

function loop ::
  "'w runtime \<Rightarrow> 'w agent \<Rightarrow> run_opts option \<Rightarrow> int \<Rightarrow> message list \<Rightarrow> 'w st
     \<Rightarrow> (thrown + run_result) \<times> message list \<times> 'w st" where
  "loop rt ag runOpts turn msgs st =
     (if turn < maxTurns ag then
        (case turn_body rt ag runOpts msgs st of
           Continue msgs' st' \<Rightarrow> loop rt ag runOpts (turn + 1) msgs' st'
         | Leave r msgs' st' \<Rightarrow> (r, msgs', st'))
      else (Inr \<lparr> r_text = JStr sentinel, r_messages = None \<rparr>, msgs, st))"
  by pat_completeness auto
termination
  by (relation "measure (\<lambda>(rt, ag, runOpts, turn, msgs, st). nat (maxTurns ag - turn))") auto

declare loop.simps [simp del]

subsection \<open>run\<close>

text \<open>
  The result of \<open>run\<close> (what it returns or throws), with the transcript, the agent and
  the state it leaves.
\<close>

definition seed :: "'w agent \<Rightarrow> string \<Rightarrow> message list" where
  "seed ag user = (if system ag \<noteq> [] then [Msg_system (system ag)] else []) @ [Msg_user user]"

definition run ::
  "'w runtime \<Rightarrow> 'w agent \<Rightarrow> string \<Rightarrow> run_opts option \<Rightarrow> 'w st
     \<Rightarrow> (thrown + run_result) \<times> message list \<times> 'w agent \<times> 'w st" where
  "run rt ag user runOpts st =
     (if str_or (apiKey ag) [] = [] then (Inl (ErrorObj ''Missing apiKey''), [], ag, st)
      else if str_or (model ag) [] = [] then (Inl (ErrorObj ''Missing model''), [], ag, st)
      else
        (case init rt ag st of
           (Some e, ag1, st1) \<Rightarrow> (Inl e, [], ag1, st1)
         | (None, ag1, st1) \<Rightarrow>
             (case loop rt ag1 runOpts 0 (seed ag1 user) st1 of
                (r, msgs, st2) \<Rightarrow> (r, msgs, ag1, st2))))"

section \<open>Reading a transcript and a trace\<close>









fun is_completion :: "event \<Rightarrow> bool" where
  "is_completion (Completion msgs) = True"
| "is_completion ev = False"

fun is_invocation :: "event \<Rightarrow> bool" where
  "is_invocation (Invocation key args) = True"
| "is_invocation ev = False"

text \<open>
  Two states with the same completion requests and handler invocations in their traces;
  two agents with the same system prompt and guardrails.
\<close>

definition same_calls :: "'w st \<Rightarrow> 'w st \<Rightarrow> bool" where
  "same_calls st st' =
     (filter is_completion (trace st') = filter is_completion (trace st)
      \<and> filter is_invocation (trace st') = filter is_invocation (trace st))"

definition same_settings :: "'w agent \<Rightarrow> 'w agent \<Rightarrow> bool" where
  "same_settings ag ag' =
     (system ag' = system ag \<and> maxTurns ag' = maxTurns ag
      \<and> maxToolCallsPerTurn ag' = maxToolCallsPerTurn ag)"

text \<open>
  In each of the next \<open>n\<close> turns the model call gives a message, and the message
  carries at least one tool-invocation request. A dispatch that throws ends the run:
  no turn follows it.
\<close>

fun busy_turns :: "'w runtime \<Rightarrow> 'w agent \<Rightarrow> nat \<Rightarrow> message list \<Rightarrow> 'w st \<Rightarrow> bool" where
  "busy_turns rt ag 0 msgs st = True"
| "busy_turns rt ag (Suc n) msgs st =
     (case next_message rt ag msgs st of
        (Inl e, st1) \<Rightarrow> False
      | (Inr m, st1) \<Rightarrow>
          opt_or (tool_calls m) [] \<noteq> [] \<and>
          (case exec_tool_calls rt ag (js_slice0 (opt_or (tool_calls m) []) (maxToolCallsPerTurn ag))
                  (msgs @ [Msg_assistant m]) st1 of
             (Some e, msgs2, st2) \<Rightarrow> n = 0
           | (None, msgs2, st2) \<Rightarrow> busy_turns rt ag n msgs2 st2))"

text \<open>The same, with every dispatch completing.\<close>

fun steady_turns :: "'w runtime \<Rightarrow> 'w agent \<Rightarrow> nat \<Rightarrow> message list \<Rightarrow> 'w st \<Rightarrow> bool" where
  "steady_turns rt ag 0 msgs st = True"
| "steady_turns rt ag (Suc n) msgs st =
     (case next_message rt ag msgs st of
        (Inl e, st1) \<Rightarrow> False
      | (Inr m, st1) \<Rightarrow>
          opt_or (tool_calls m) [] \<noteq> [] \<and>
          (case exec_tool_calls rt ag (js_slice0 (opt_or (tool_calls m) []) (maxToolCallsPerTurn ag))
                  (msgs @ [Msg_assistant m]) st1 of
             (Some e, msgs2, st2) \<Rightarrow> False
           | (None, msgs2, st2) \<Rightarrow> steady_turns rt ag n msgs2 st2))"
section \<open>The text of a content part\<close>

text \<open>
  The specification concatenates \<open>each part's text\<close>, a part without text giving the
  empty string. Written out on the values: a part that is a string is its own text; an
  object whose \<open>text\<close> property is truthy has the stringification of that property
  for text, which can throw; any other part has no text.
\<close>

fun part_text :: "(int \<Rightarrow> string) \<Rightarrow> jsval \<Rightarrow> thrown + string" where
  "part_text big (JStr s) = Inr s"
| "part_text big (JObj kvs) =
     (case map_of kvs ''text'' of
        None \<Rightarrow> Inr []
      | Some t \<Rightarrow> if truthy t then js_String big t else Inr [])"
| "part_text big p = Inr []"

section \<open>A JSON reader for the modelled values\<close>

text \<open>
  \<open>JSON.parse\<close> on the texts whose values are in \<^typ>\<open>jsval\<close>: the JSON grammar with
  integer numbers in the safe range (a fraction, an exponent or a larger number is
  refused here, not by JavaScript) and escapes of code units below 256. It stands for
  \<open>JSON.parse\<close> in the examples. The recursion on nested values spends fuel, of which
  \<open>json_parse\<close> gives more than a text can use.
\<close>

definition is_ws :: "char \<Rightarrow> bool" where
  "is_ws c = (c = CHR 0x20 \<or> c = CHR 0x09 \<or> c = CHR 0x0A \<or> c = CHR 0x0D)"

definition skip_ws :: "string \<Rightarrow> string" where
  "skip_ws s = dropWhile is_ws s"

definition is_digit :: "char \<Rightarrow> bool" where
  "is_digit c = (48 \<le> (of_char c :: nat) \<and> (of_char c :: nat) \<le> 57)"

definition digits_val :: "string \<Rightarrow> nat" where
  "digits_val ds = foldl (\<lambda>n c. 10 * n + (of_char c - 48)) 0 ds"

definition hex_val :: "char \<Rightarrow> nat option" where
  "hex_val c =
     (let n = (of_char c :: nat)
      in if 48 \<le> n \<and> n \<le> 57 then Some (n - 48)
         else if 97 \<le> n \<and> n \<le> 102 then Some (n - 87)
         else if 65 \<le> n \<and> n \<le> 70 then Some (n - 55)
         else None)"

definition unescape :: "char \<Rightarrow> char option" where
  "unescape e =
     (if e = CHR 0x22 then Some (CHR 0x22)
      else if e = CHR 0x5C then Some (CHR 0x5C)
      else if e = CHR ''/'' then Some (CHR ''/'')
      else if e = CHR ''b'' then Some (CHR 0x08)
      else if e = CHR ''f'' then Some (CHR 0x0C)
      else if e = CHR ''n'' then Some (CHR 0x0A)
      else if e = CHR ''r'' then Some (CHR 0x0D)
      else if e = CHR ''t'' then Some (CHR 0x09)
      else None)"

definition hex4 :: "char \<Rightarrow> char \<Rightarrow> char \<Rightarrow> char \<Rightarrow> nat option" where
  "hex4 a b c d =
     (case (hex_val a, hex_val b, hex_val c, hex_val d) of
        (Some x, Some y, Some z, Some w) \<Rightarrow> Some (((x * 16 + y) * 16 + z) * 16 + w)
      | _ \<Rightarrow> None)"

fun parse_chars :: "string \<Rightarrow> (string \<times> string) option" where
  "parse_chars [] = None"
| "parse_chars (c # cs) =
     (if c = CHR 0x22 then Some ([], cs)
      else if c = CHR 0x5C then
        (case cs of
           [] \<Rightarrow> None
         | e # cs1 \<Rightarrow>
             if e = CHR ''u'' then
               (case cs1 of
                  a # b # c # d # cs2 \<Rightarrow>
                    (case hex4 a b c d of
                       None \<Rightarrow> None
                     | Some n \<Rightarrow>
                         if n < 256 then
                           (case parse_chars cs2 of
                              None \<Rightarrow> None
                            | Some (s, r) \<Rightarrow> Some (char_of n # s, r))
                         else None)
                | _ \<Rightarrow> None)
             else
               (case unescape e of
                  None \<Rightarrow> None
                | Some x \<Rightarrow>
                    (case parse_chars cs1 of
                       None \<Rightarrow> None
                     | Some (s, r) \<Rightarrow> Some (x # s, r))))
      else if (of_char c :: nat) < 32 then None
      else (case parse_chars cs of None \<Rightarrow> None | Some (s, r) \<Rightarrow> Some (c # s, r)))"

definition parse_number :: "string \<Rightarrow> (jsval \<times> string) option" where
  "parse_number s =
     (let neg = (s \<noteq> [] \<and> hd s = CHR ''-'');
          body = (if neg then tl s else s);
          ds = takeWhile is_digit body;
          rest = dropWhile is_digit body
      in if ds = [] then None
         else if hd ds = CHR ''0'' \<and> 1 < length ds then None
         else if rest \<noteq> [] \<and> (hd rest = CHR ''.'' \<or> hd rest = CHR ''e'' \<or> hd rest = CHR ''E'')
           then None
         else if \<not> safe (int (digits_val ds)) then None
         else Some (JNum (if neg then - int (digits_val ds) else int (digits_val ds)), rest))"

definition literal :: "string \<Rightarrow> jsval \<Rightarrow> string \<Rightarrow> (jsval \<times> string) option" where
  "literal word v s =
     (if take (length word) s = word then Some (v, drop (length word) s) else None)"

fun parse_value :: "nat \<Rightarrow> string \<Rightarrow> (jsval \<times> string) option"
  and parse_elements :: "nat \<Rightarrow> string \<Rightarrow> (jsval list \<times> string) option"
  and parse_members :: "nat \<Rightarrow> string \<Rightarrow> ((string \<times> jsval) list \<times> string) option" where
  "parse_value 0 s = None"
| "parse_value (Suc n) s =
     (case skip_ws s of
        [] \<Rightarrow> None
      | c # cs \<Rightarrow>
          if c = CHR ''n'' then literal ''null'' JNull (c # cs)
          else if c = CHR ''t'' then literal ''true'' (JBool True) (c # cs)
          else if c = CHR ''f'' then literal ''false'' (JBool False) (c # cs)
          else if c = CHR 0x22 then
            (case parse_chars cs of None \<Rightarrow> None | Some (str, r) \<Rightarrow> Some (JStr str, r))
          else if c = CHR ''['' then
            (if skip_ws cs \<noteq> [] \<and> hd (skip_ws cs) = CHR '']''
               then Some (JArr [], tl (skip_ws cs))
             else (case parse_elements n cs of
                     None \<Rightarrow> None
                   | Some (vs, r) \<Rightarrow> Some (JArr vs, r)))
          else if c = CHR ''{'' then
            (if skip_ws cs \<noteq> [] \<and> hd (skip_ws cs) = CHR ''}''
               then Some (JObj [], tl (skip_ws cs))
             else (case parse_members n cs of
                     None \<Rightarrow> None
                   | Some (kvs, r) \<Rightarrow>
                       Some (JObj (foldl (\<lambda>obj kv. AList.update (fst kv) (snd kv) obj) [] kvs), r)))
          else if c = CHR ''-'' \<or> is_digit c then parse_number (c # cs)
          else None)"
| "parse_elements 0 s = None"
| "parse_elements (Suc n) s =
     (case parse_value n s of
        None \<Rightarrow> None
      | Some (v, r) \<Rightarrow>
          (case skip_ws r of
             [] \<Rightarrow> None
           | c # r1 \<Rightarrow>
               if c = CHR '','' then
                 (case parse_elements n r1 of
                    None \<Rightarrow> None
                  | Some (vs, r2) \<Rightarrow> Some (v # vs, r2))
               else if c = CHR '']'' then Some ([v], r1)
               else None))"
| "parse_members 0 s = None"
| "parse_members (Suc n) s =
     (case skip_ws s of
        [] \<Rightarrow> None
      | q # s1 \<Rightarrow>
          if q \<noteq> CHR 0x22 then None
          else
            (case parse_chars s1 of
               None \<Rightarrow> None
             | Some (k, s2) \<Rightarrow>
                 (case skip_ws s2 of
                    [] \<Rightarrow> None
                  | colon # s3 \<Rightarrow>
                      if colon \<noteq> CHR '':'' then None
                      else
                        (case parse_value n s3 of
                           None \<Rightarrow> None
                         | Some (v, s4) \<Rightarrow>
                             (case skip_ws s4 of
                                [] \<Rightarrow> None
                              | c # s5 \<Rightarrow>
                                  if c = CHR '','' then
                                    (case parse_members n s5 of
                                       None \<Rightarrow> None
                                     | Some (kvs, s6) \<Rightarrow> Some ((k, v) # kvs, s6))
                                  else if c = CHR ''}'' then Some ([(k, v)], s5)
                                  else None)))))"

definition json_parse :: "string \<Rightarrow> jsval option" where
  "json_parse s =
     (case parse_value (Suc (length s)) s of
        None \<Rightarrow> None
      | Some (v, r) \<Rightarrow> if skip_ws r = [] then Some v else None)"

section \<open>A scripted world\<close>

text \<open>
  A world for running the agent on concrete inputs: the responses the completion
  endpoint will give, in order. \<open>fetch\<close> takes the next one and fails when none is
  left; no MCP server is used, and no number outside the safe range.
\<close>

type_synonym script = "http_response list"

definition scripted_fetch :: "chat_request \<Rightarrow> script \<Rightarrow> (thrown + http_response) \<times> script" where
  "scripted_fetch rq w =
     (case w of [] \<Rightarrow> (Inl (ErrorObj ''fetch failed''), []) | r # rs \<Rightarrow> (Inr r, rs))"

definition scripted :: "script runtime" where
  "scripted =
     \<lparr> JSON_parse = json_parse,
       Number_toString = (\<lambda>i. ''1e+21''),
       fetch = scripted_fetch,
       sdk_connect = (\<lambda>cfg w. (None, w)),
       sdk_listTools = (\<lambda>cfg w. (Inr (Some []), w)),
       sdk_callTool = (\<lambda>cfg toolName args w. (Returns (Value JNull), w)) \<rparr>"

text \<open>A successful response whose first choice is the message \<open>m\<close>.\<close>

definition answers :: "chat_message \<Rightarrow> http_response" where
  "answers m =
     \<lparr> rs_ok = True, rs_status = 200, rs_text = None,
       rs_json = Inr (Some \<lparr> choices = Some [\<lparr> ch_message = Some m \<rparr>] \<rparr>) \<rparr>"

definition says :: "string \<Rightarrow> chat_message" where
  "says s = \<lparr> role = ''assistant'', content = JStr s, tool_calls = None \<rparr>"

definition writes :: "jsval \<Rightarrow> chat_message" where
  "writes c = \<lparr> role = ''assistant'', content = c, tool_calls = None \<rparr>"

definition asks :: "tool_call list \<Rightarrow> chat_message" where
  "asks tcs = \<lparr> role = ''assistant'', content = JNull, tool_calls = Some tcs \<rparr>"

definition request :: "string \<Rightarrow> string \<Rightarrow> string \<Rightarrow> tool_call" where
  "request i n a = \<lparr> tc_id = i, tc_function = Some \<lparr> fn_name = Some n, fn_arguments = Some a \<rparr> \<rparr>"

text \<open>
  A content of three parts: a text part, a string and a part with no text. Messages
  with four and with three requests, and a script of two responses: the four requests,
  then a final answer.
\<close>

definition three_parts :: jsval where
  "three_parts =
     JArr [JObj [(''type'', JStr ''text''), (''text'', JStr ''Hel'')],
           JStr ''lo!'',
           JObj [(''type'', JStr ''image_url'')]]"




text \<open>
  Five tools: \<open>echo\<close> returns an object with the \<open>message\<close> of its arguments,
  \<open>greet\<close> returns a string, \<open>quiet\<close> returns nothing (\<open>undefined\<close>),
  \<open>failing m\<close> throws \<open>new Error(m)\<close>, and \<open>count\<close> returns the \<open>BigInt\<close> \<open>10n\<close>, a
  truthy value on which \<open>JSON.stringify\<close> throws a \<open>TypeError\<close>.
\<close>

definition echo :: "script tool" where
  "echo =
     \<lparr> t_name = Some ''echo'',
       t_description = Some ''Echoes back the provided message.'',
       t_parameters = Some (JObj [(''type'', JStr ''object'')]),
       t_handler = (\<lambda>args w. (Returns (Value (JObj [(''echoed'', opt_get args ''message'')])), w)) \<rparr>"

definition greet :: "script tool" where
  "greet =
     \<lparr> t_name = Some ''greet'', t_description = None, t_parameters = None,
       t_handler = (\<lambda>args w. (Returns (Value (JStr ''hello'')), w)) \<rparr>"

definition quiet :: "script tool" where
  "quiet =
     \<lparr> t_name = Some ''quiet'', t_description = None, t_parameters = None,
       t_handler = (\<lambda>args w. (Returns (Value JUndefined), w)) \<rparr>"

definition failing :: "string \<Rightarrow> script tool" where
  "failing m =
     \<lparr> t_name = Some ''failing'', t_description = None, t_parameters = None,
       t_handler = (\<lambda>args w. (Throws (ErrorObj m), w)) \<rparr>"

definition bigint :: foreign where
  "bigint =
     \<lparr> f_truthy = True,
       f_json = Inl (ErrorObj ''Do not know how to serialize a BigInt'') \<rparr>"

definition count :: "script tool" where
  "count =
     \<lparr> t_name = Some ''count'', t_description = None, t_parameters = None,
       t_handler = (\<lambda>args w. (Returns (Foreign bigint), w)) \<rparr>"

definition nameless :: "script tool" where
  "nameless =
     \<lparr> t_name = None, t_description = None, t_parameters = None,
       t_handler = (\<lambda>args w. (Returns (Value JNull), w)) \<rparr>"

text \<open>An agent made by the constructor, with the given tools and guardrails.\<close>

definition agent_with :: "script tool list \<Rightarrow> int \<Rightarrow> int \<Rightarrow> script agent" where
  "agent_with tools turns calls =
     new_Agent
       \<lparr> o_system = Some ''You are a helpful assistant.'',
         o_model = Some ''gpt-4o-mini'',
         o_apiKey = Some ''sk-test'',
         o_baseURL = None,
         o_maxTurns = Some turns,
         o_maxToolCallsPerTurn = Some calls,
         o_temperature = None,
         o_tools = Some tools,
         o_mcpServers = None,
         o_verbose = None \<rparr>"

text \<open>
  The same agent configured with one MCP server, and a runtime in which connecting to a
  server fails.
\<close>

definition with_server :: "script agent \<Rightarrow> script agent" where
  "with_server ag =
     ag\<lparr>mcpServers :=
          [\<lparr> cfg_name = ''files'', cfg_url = ''ws://localhost:3000'', cfg_headers = None \<rparr>]\<rparr>"

definition offline :: "script runtime" where
  "offline = scripted\<lparr>sdk_connect := (\<lambda>cfg w. (Some (ErrorObj ''connect ECONNREFUSED''), w))\<rparr>"

definition start :: "script \<Rightarrow> script st" where
  "start w = \<lparr> world = w, trace = [] \<rparr>"

text \<open>The agent after \<open>init\<close> in the empty world: its tools are registered.\<close>

definition ready :: "script agent \<Rightarrow> script agent" where
  "ready ag = fst (snd (init scripted ag (start [])))"

section \<open>Properties of the dispatch and of the loop\<close>

text \<open>The definitions that running the agent in the scripted world unfolds.\<close>

lemmas world_defs = agent_with_def new_Agent_def str_or_def opt_or_def strip_slash_def
  start_def scripted_def scripted_fetch_def answers_def says_def writes_def asks_def request_def
  echo_def greet_def quiet_def failing_def count_def bigint_def nameless_def ready_def
  with_server_def offline_def

lemmas run_defs = run_def init_def seed_def registerTool_def registry_set_def
  turn_body_def next_message_def openAIToolsSpec_def chat_def emit_def first_message_def
  returned_def js_slice0_def exec_tool_call_def tc_name_def tc_arguments_def parse_args_def
  prop_key_def registry_get_def reply_def toolContent_def Let_def js_or_def default_schema_def
  object_prototype_keys_def not_a_function_def connect_def number_text_def safe_def

lemmas parse_defs = json_parse_def skip_ws_def is_ws_def is_digit_def literal_def
  parse_number_def unescape_def json_quote_def json_escape_def

subsection \<open>One request\<close>




subsection \<open>The requests of a turn\<close>





subsection \<open>The body of a turn\<close>

lemma next_message_trace:
  "next_message rt ag msgs st = (r, st1) \<Longrightarrow>
     filter is_invocation (trace st1) = filter is_invocation (trace st)
     \<and> (case r of Inr m \<Rightarrow> trace st1 = trace st @ [Completion msgs] | Inl e \<Rightarrow> True)"
  by (auto simp: next_message_def chat_def emit_def Let_def
      split: sum.splits prod.splits option.splits if_splits)




subsection \<open>The shape of the transcript\<close>









subsection \<open>What init leaves unchanged\<close>

lemma register_tools_settings:
  "register_tools ts ag = (e, ag') \<Longrightarrow> same_settings ag ag'"
proof (induction ts arbitrary: ag)
  case Nil
  then show ?case by (simp add: same_settings_def)
next
  case (Cons t ts)
  show ?case
  proof (cases "registerTool ag t")
    case (Inl x)
    with Cons.prems show ?thesis by (simp add: same_settings_def)
  next
    case (Inr ag1)
    then have "same_settings ag ag1"
      by (auto simp: registerTool_def same_settings_def split: option.splits if_splits)
    moreover from Inr Cons have "same_settings ag1 ag'" by simp
    ultimately show ?thesis by (simp add: same_settings_def)
  qed
qed

lemma connect_calls: "connect rt ad st = (r, st') \<Longrightarrow> same_calls st st'"
  by (auto simp: connect_def same_calls_def emit_def split: prod.splits option.splits sum.splits)

lemma listTools_calls: "listTools rt ad st = (r, st') \<Longrightarrow> same_calls st st'"
  by (auto simp: listTools_def same_calls_def emit_def split: prod.splits sum.splits if_splits)

lemma connect_servers_frame:
  "connect_servers rt cfgs ag st = (e, ag', st') \<Longrightarrow> same_settings ag ag' \<and> same_calls st st'"
proof (induction cfgs arbitrary: ag st)
  case Nil
  then show ?case by (simp add: same_settings_def same_calls_def)
next
  case (Cons cfg cfgs)
  obtain r1 st1 where c: "connect rt \<lparr> ad_cfg = cfg, ad_client = False \<rparr> st = (r1, st1)"
    by (cases "connect rt \<lparr> ad_cfg = cfg, ad_client = False \<rparr> st")
  note c1 = connect_calls [OF c]
  show ?case
  proof (cases r1)
    case (Inl x)
    with Cons.prems c c1 show ?thesis by (simp add: same_settings_def)
  next
    case (Inr ad)
    obtain r2 st2 where l: "listTools rt ad st1 = (r2, st2)" by (cases "listTools rt ad st1")
    note c2 = listTools_calls [OF l]
    show ?thesis
    proof (cases r2)
      case (Inl x)
      with Cons.prems c Inr l c1 c2 show ?thesis by (simp add: same_settings_def same_calls_def)
    next
      case (Inr mts)
      obtain e3 ag3 where r: "register_tools (map (wrapped rt ad cfg) mts) ag = (e3, ag3)"
        by (cases "register_tools (map (wrapped rt ad cfg) mts) ag")
      note s3 = register_tools_settings [OF r]
      show ?thesis
      proof (cases e3)
        case (Some x)
        with Cons.prems c \<open>r1 = Inr ad\<close> l Inr r c1 c2 s3 show ?thesis
          by (simp add: same_calls_def)
      next
        case None
        with Cons.prems c \<open>r1 = Inr ad\<close> l Inr r
        have "connect_servers rt cfgs (ag3\<lparr>mcpAdapters := mcpAdapters ag3 @ [ad]\<rparr>) st2 = (e, ag', st')"
          by simp
        from Cons.IH [OF this] c1 c2 s3 show ?thesis
          by (simp add: same_settings_def same_calls_def)
      qed
    qed
  qed
qed

lemma init_frame:
  "init rt ag st = (e, ag', st') \<Longrightarrow> same_settings ag ag' \<and> same_calls st st'"
proof -
  assume i: "init rt ag st = (e, ag', st')"
  obtain e1 ag1 where r: "register_tools (customTools ag) ag = (e1, ag1)"
    by (cases "register_tools (customTools ag) ag")
  note s1 = register_tools_settings [OF r]
  show ?thesis
  proof (cases e1)
    case (Some x)
    with i r s1 show ?thesis by (simp add: init_def same_calls_def)
  next
    case None
    with i r have "connect_servers rt (mcpServers ag1) ag1 st = (e, ag', st')"
      by (simp add: init_def)
    from connect_servers_frame [OF this] s1 show ?thesis by (simp add: same_settings_def)
  qed
qed

section \<open>The run\<close>

text \<open>
  C1. When the keys are present, \<open>init\<close> completes, at least one turn is allowed and
  the first model call gives a message with no tool-invocation request, \<open>run\<close> ends
  after that one model call, with the transcript the seed followed by the message and
  one completion request more in the trace. It returns the coerced content of the
  message as its text when \<open>coerceText\<close> gives one, and throws what \<open>coerceText\<close>
  throws otherwise.
\<close>

theorem run_final_answer:
  assumes "str_or (apiKey ag) [] \<noteq> []" and "str_or (model ag) [] \<noteq> []"
    and "init rt ag st = (None, ag1, st1)"
    and "0 < maxTurns ag"
    and "next_message rt ag1 (seed ag1 user) st1 = (Inr m, st2)"
    and "opt_or (tool_calls m) [] = []"
  shows "run rt ag user ro st =
           ((case coerceText (Number_toString rt) (content m) of
               Inl e \<Rightarrow> Inl e
             | Inr shown \<Rightarrow>
                 Inr \<lparr> r_text = shown,
                       r_messages = returned ro (seed ag1 user @ [Msg_assistant m]) \<rparr>),
            seed ag1 user @ [Msg_assistant m], ag1, st2)
         \<and> length (filter is_completion (trace st2))
             = Suc (length (filter is_completion (trace st)))"
proof -
  from init_frame [OF assms(3)] have f: "maxTurns ag1 = maxTurns ag"
    "filter is_completion (trace st1) = filter is_completion (trace st)"
    by (simp_all add: same_settings_def same_calls_def)
  have "turn_body rt ag1 ro (seed ag1 user) st1 =
          Leave (case coerceText (Number_toString rt) (content m) of
                   Inl e \<Rightarrow> Inl e
                 | Inr shown \<Rightarrow>
                     Inr \<lparr> r_text = shown,
                           r_messages = returned ro (seed ag1 user @ [Msg_assistant m]) \<rparr>)
                (seed ag1 user @ [Msg_assistant m]) st2"
    using assms(5,6) by (simp add: turn_body_def Let_def split: sum.splits)
  with assms(4) f(1)
  have "loop rt ag1 ro 0 (seed ag1 user) st1 =
          ((case coerceText (Number_toString rt) (content m) of
              Inl e \<Rightarrow> Inl e
            | Inr shown \<Rightarrow>
                Inr \<lparr> r_text = shown,
                      r_messages = returned ro (seed ag1 user @ [Msg_assistant m]) \<rparr>),
           seed ag1 user @ [Msg_assistant m], st2)"
    by (simp add: loop.simps)
  with assms(1,2,3) have "run rt ag user ro st =
           ((case coerceText (Number_toString rt) (content m) of
               Inl e \<Rightarrow> Inl e
             | Inr shown \<Rightarrow>
                 Inr \<lparr> r_text = shown,
                       r_messages = returned ro (seed ag1 user @ [Msg_assistant m]) \<rparr>),
            seed ag1 user @ [Msg_assistant m], ag1, st2)"
    by (simp add: run_def)
  moreover from next_message_trace [OF assms(5)] f(2)
  have "length (filter is_completion (trace st2)) = Suc (length (filter is_completion (trace st)))"
    by simp
  ultimately show ?thesis by simp
qed

text \<open>
  The first response has no tool calls, and for content three parts: a text part, a
  string and an image part. \<open>run\<close> returns the two texts joined, after one model call.
\<close>

theorem run_final_answer_witness:
  "str_or (apiKey (agent_with [echo] 3 2)) [] \<noteq> []
   \<and> str_or (model (agent_with [echo] 3 2)) [] \<noteq> []
   \<and> 0 < maxTurns (agent_with [echo] 3 2)
   \<and> opt_or (tool_calls (writes three_parts)) [] = []
   \<and> fst (run scripted (agent_with [echo] 3 2) ''hi'' None (start [answers (writes three_parts)]))
       = Inr \<lparr> r_text = JStr ''Hello!'', r_messages = None \<rparr>
   \<and> length (filter is_completion
        (trace (snd (snd (snd (run scripted (agent_with [echo] 3 2) ''hi'' None
           (start [answers (writes three_parts)]))))))) = 1"
proof -
  let ?ag = "agent_with [echo] 3 2"
  let ?st = "start [answers (writes three_parts)]"
  have k: "str_or (apiKey ?ag) [] \<noteq> []" "str_or (model ?ag) [] \<noteq> []" "0 < maxTurns ?ag"
    by (simp_all add: world_defs)
  have i: "init scripted ?ag ?st = (None, ready ?ag, ?st)"
    by (simp add: world_defs run_defs)
  have n: "next_message scripted (ready ?ag) (seed (ready ?ag) ''hi'') ?st
             = (Inr (writes three_parts),
                \<lparr> world = [], trace = [Completion (seed (ready ?ag) ''hi'')] \<rparr>)"
    by (simp add: world_defs run_defs)
  have t: "opt_or (tool_calls (writes three_parts)) [] = []" by (simp add: world_defs)
  have c: "coerceText (Number_toString scripted) (content (writes three_parts))
             = Inr (JStr ''Hello!'')"
    by (simp add: writes_def three_parts_def js_join_def part_value_def js_or_def as_text_def)
  from run_final_answer [OF k(1,2) i k(3) n t, of None] k t c show ?thesis
    by (simp add: returned_def start_def)
qed

text \<open>
  C1 as stated fails: the first response carries no tool-invocation request and the
  content \<open>{"toString": 1}\<close>; \<open>coerceText\<close> reaches \<open>String(content)\<close>, which throws a
  \<open>TypeError\<close>, and \<open>run\<close> throws it after its one model call instead of returning a
  text.
\<close>

theorem final_answer_not_coerced:
  "str_or (apiKey (agent_with [echo] 3 2)) [] \<noteq> []
   \<and> str_or (model (agent_with [echo] 3 2)) [] \<noteq> []
   \<and> opt_or (tool_calls (writes (JObj [(''toString'', JNum 1)]))) [] = []
   \<and> fst (run scripted (agent_with [echo] 3 2) ''hi'' None
        (start [answers (writes (JObj [(''toString'', JNum 1)]))]))
       = Inl (ErrorObj ''Cannot convert object to primitive value'')
   \<and> length (filter is_completion
        (trace (snd (snd (snd (run scripted (agent_with [echo] 3 2) ''hi'' None
           (start [answers (writes (JObj [(''toString'', JNum 1)]))]))))))) = 1"
  by (simp add: world_defs run_defs loop.simps js_nullish_def as_text_def no_primitive_def)

lemma loop_steady:
  "steady_turns rt ag n msgs st \<Longrightarrow> int n = maxTurns ag - turn \<Longrightarrow>
     fst (loop rt ag ro turn msgs st) = Inr \<lparr> r_text = JStr sentinel, r_messages = None \<rparr>"
proof (induction n arbitrary: turn msgs st)
  case 0
  then show ?case by (simp add: loop.simps)
next
  case (Suc n)
  from Suc.prems(2) have lt: "turn < maxTurns ag" by simp
  obtain r st1 where nm0: "next_message rt ag msgs st = (r, st1)"
    by (cases "next_message rt ag msgs st")
  with Suc.prems(1) obtain m where r: "r = Inr m" by (cases r) simp_all
  with Suc.prems(1) nm0 have
    nm: "next_message rt ag msgs st = (Inr m, st1)" "opt_or (tool_calls m) [] \<noteq> []"
    by simp_all
  obtain e msgs2 st2 where
    ex0: "exec_tool_calls rt ag (js_slice0 (opt_or (tool_calls m) []) (maxToolCallsPerTurn ag))
               (msgs @ [Msg_assistant m]) st1 = (e, msgs2, st2)"
    by (cases "exec_tool_calls rt ag (js_slice0 (opt_or (tool_calls m) []) (maxToolCallsPerTurn ag))
               (msgs @ [Msg_assistant m]) st1")
  with Suc.prems(1) nm have e: "e = None" by (cases e) simp_all
  with Suc.prems(1) nm ex0 have b: "steady_turns rt ag n msgs2 st2" by simp
  have "turn_body rt ag ro msgs st = Continue msgs2 st2"
    using nm ex0 e by (simp add: turn_body_def Let_def)
  with lt have "loop rt ag ro turn msgs st = loop rt ag ro (turn + 1) msgs2 st2"
    by (simp add: loop.simps [of rt ag ro turn])
  moreover from Suc.prems(2) have "int n = maxTurns ag - (turn + 1)" by simp
  ultimately show ?case using Suc.IH [OF b] by simp
qed

text \<open>
  The guardrail: when the keys are present, \<open>init\<close> completes, \<open>maxTurns\<close> is at least
  one, each of the first \<open>maxTurns\<close> model calls gives a message with at least one
  tool-invocation request and every dispatch completes, \<open>run\<close> returns the sentinel.
\<close>

lemma guardrail_when_dispatches_complete:
  assumes "str_or (apiKey ag) [] \<noteq> []" and "str_or (model ag) [] \<noteq> []"
    and "init rt ag st = (None, ag1, st1)"
    and "1 \<le> maxTurns ag"
    and "steady_turns rt ag1 (nat (maxTurns ag)) (seed ag1 user) st1"
  shows "fst (run rt ag user ro st) = Inr \<lparr> r_text = JStr sentinel, r_messages = None \<rparr>"
proof -
  from init_frame [OF assms(3)] have f: "maxTurns ag1 = maxTurns ag"
    by (simp add: same_settings_def)
  with assms(4) have "int (nat (maxTurns ag)) = maxTurns ag1 - 0" by simp
  from loop_steady [OF assms(5) this]
  have "fst (loop rt ag1 ro 0 (seed ag1 user) st1)
          = Inr \<lparr> r_text = JStr sentinel, r_messages = None \<rparr>" .
  with assms(1,2,3) show ?thesis
    by (cases "loop rt ag1 ro 0 (seed ag1 user) st1") (simp add: run_def)
qed

text \<open>
  C2. The code breaks the guardrail where a handler returns a value on which
  \<open>JSON.stringify\<close> throws. With \<open>maxTurns = 1\<close>, the keys present and one registered
  tool that returns a \<open>BigInt\<close>, the one assistant message carries a tool-invocation
  request, and \<open>run\<close> throws the \<open>TypeError\<close> of \<open>JSON.stringify\<close> instead of returning
  the sentinel: the serialisation of the result stands after the \<open>try\<close> that guards
  the handler call.
\<close>

theorem unserialisable_result_aborts_run:
  "str_or (apiKey (agent_with [count] 1 4)) [] \<noteq> []
   \<and> str_or (model (agent_with [count] 1 4)) [] \<noteq> []
   \<and> 1 \<le> maxTurns (agent_with [count] 1 4)
   \<and> busy_turns scripted (ready (agent_with [count] 1 4)) (nat (maxTurns (agent_with [count] 1 4)))
        (seed (ready (agent_with [count] 1 4)) ''hi'')
        (start [answers (asks [request ''c1'' ''count'' ''{}''])])
   \<and> run scripted (agent_with [count] 1 4) ''hi'' None
        (start [answers (asks [request ''c1'' ''count'' ''{}''])])
       = (Inl (ErrorObj ''Do not know how to serialize a BigInt''),
          seed (ready (agent_with [count] 1 4)) ''hi''
            @ [Msg_assistant (asks [request ''c1'' ''count'' ''{}''])],
          ready (agent_with [count] 1 4),
          \<lparr> world = [],
            trace = [Completion (seed (ready (agent_with [count] 1 4)) ''hi''),
                     Invocation ''count'' (JObj [])] \<rparr>)"
proof -
  let ?ag = "agent_with [count] 1 4"
  let ?st = "start [answers (asks [request ''c1'' ''count'' ''{}''])]"
  have k: "str_or (apiKey ?ag) [] \<noteq> []" "str_or (model ?ag) [] \<noteq> []" "1 \<le> maxTurns ?ag"
    by (simp_all add: world_defs)
  have n: "nat (maxTurns ?ag) = Suc 0" by (simp add: world_defs)
  have r: "ready ?ag = ?ag\<lparr>toolRegistry := \<lparr> own = [(''count'', count)], proto = None \<rparr>\<rparr>"
    by (simp add: world_defs run_defs)
  have b: "busy_turns scripted (ready ?ag) (nat (maxTurns ?ag)) (seed (ready ?ag) ''hi'') ?st"
    unfolding n by (simp add: world_defs run_defs parse_defs)
  have "run scripted ?ag ''hi'' None ?st
       = (Inl (ErrorObj ''Do not know how to serialize a BigInt''),
          seed (ready ?ag) ''hi'' @ [Msg_assistant (asks [request ''c1'' ''count'' ''{}''])],
          ready ?ag,
          \<lparr> world = [],
            trace = [Completion (seed (ready ?ag) ''hi''), Invocation ''count'' (JObj [])] \<rparr>)"
    by (simp add: world_defs run_defs parse_defs loop.simps)
  with k b show ?thesis by simp
qed





text \<open>
  C10, as the code has it. With the keys present and \<open>maxTurns \<le> 0\<close>, \<open>run\<close> does
  \<open>init\<close> and nothing else: it makes no completion request and invokes no handler;
  when \<open>init\<close> completes it returns the guardrail sentinel, and when \<open>init\<close> throws it
  throws the same failure.
\<close>

theorem run_zero_turns:
  assumes "str_or (apiKey ag) [] \<noteq> []" and "str_or (model ag) [] \<noteq> []"
    and "maxTurns ag \<le> 0"
    and "init rt ag st = (e, ag1, st1)"
  shows "run rt ag user ro st =
           ((case e of None \<Rightarrow> Inr \<lparr> r_text = JStr sentinel, r_messages = None \<rparr> | Some x \<Rightarrow> Inl x),
            (case e of None \<Rightarrow> seed ag1 user | Some x \<Rightarrow> []), ag1, st1)
         \<and> filter is_completion (trace st1) = filter is_completion (trace st)
         \<and> filter is_invocation (trace st1) = filter is_invocation (trace st)"
proof -
  from init_frame [OF assms(4)] have f: "maxTurns ag1 = maxTurns ag" "same_calls st st1"
    by (simp_all add: same_settings_def)
  with assms(3) have "loop rt ag1 ro 0 (seed ag1 user) st1 =
      (Inr \<lparr> r_text = JStr sentinel, r_messages = None \<rparr>, seed ag1 user, st1)"
    by (simp add: loop.simps)
  with assms(1,2,4) f(2) show ?thesis
    by (cases e) (simp_all add: run_def same_calls_def)
qed

text \<open>With one named tool and \<open>maxTurns = 0\<close> the script is left untouched.\<close>

theorem run_zero_turns_witness:
  "str_or (apiKey (agent_with [echo] 0 4)) [] \<noteq> []
   \<and> str_or (model (agent_with [echo] 0 4)) [] \<noteq> []
   \<and> maxTurns (agent_with [echo] 0 4) \<le> 0
   \<and> run scripted (agent_with [echo] 0 4) ''hi'' None (start [answers (says ''Hello!'')])
       = (Inr \<lparr> r_text = JStr sentinel, r_messages = None \<rparr>,
          seed (ready (agent_with [echo] 0 4)) ''hi'', ready (agent_with [echo] 0 4),
          start [answers (says ''Hello!'')])"
proof -
  let ?ag = "agent_with [echo] 0 4"
  let ?st = "start [answers (says ''Hello!'')]"
  have k: "str_or (apiKey ?ag) [] \<noteq> []" "str_or (model ?ag) [] \<noteq> []" "maxTurns ?ag \<le> 0"
    by (simp_all add: world_defs)
  have i: "init scripted ?ag ?st = (None, ready ?ag, ?st)"
    by (simp add: world_defs run_defs)
  from run_zero_turns [OF k i, of "''hi''" None] k show ?thesis by simp
qed

text \<open>
  C10 as stated fails: with the keys present and \<open>maxTurns = 0\<close>, \<open>run\<close> returns no
  sentinel when \<open>init\<close> throws, as it does when a configured MCP server cannot be
  reached, or when a tool has no name.
\<close>

theorem zero_turns_init_failure:
  "str_or (apiKey (with_server (agent_with [echo] 0 4))) [] \<noteq> []
   \<and> str_or (model (with_server (agent_with [echo] 0 4))) [] \<noteq> []
   \<and> maxTurns (with_server (agent_with [echo] 0 4)) \<le> 0
   \<and> fst (run offline (with_server (agent_with [echo] 0 4)) ''hi'' None (start []))
       = Inl (ErrorObj ''Failed to load/connect MCP SDK: connect ECONNREFUSED'')
   \<and> maxTurns (agent_with [nameless] 0 4) \<le> 0
   \<and> fst (run scripted (agent_with [nameless] 0 4) ''hi'' None (start []))
       = Inl (ErrorObj ''Tool must have a name'')"
  by (simp add: world_defs run_defs)

section \<open>The arguments and the result of a tool call\<close>

text \<open>
  C7, as the code has it. For a request whose tool resolves and whose raw arguments
  fail to parse, the handler is invoked once, with the sentinel object \<open>{_raw: raw}\<close>
  when the raw string is not empty and with the empty object when it is empty (an empty
  string is not parsed at all). The failed parse changes nothing else: the dispatch
  goes on from the outcome of the handler as after any call, to one tool message, or
  to the failure that describing or serialising the outcome throws.
\<close>

theorem arguments_given_to_handler:
  assumes "tc_arguments tc = Some raw" and "JSON_parse rt raw = None"
    and "registry_get (toolRegistry ag) (prop_key (tc_name tc)) = Tool t"
  shows "exec_tool_call rt ag tc msgs st =
           (case reply (Number_toString rt)
                   (fst (t_handler t (if raw = [] then JObj [] else JObj [(''_raw'', JStr raw)])
                           (world st))) of
              Inl e \<Rightarrow> Some e | Inr c \<Rightarrow> None,
            case reply (Number_toString rt)
                   (fst (t_handler t (if raw = [] then JObj [] else JObj [(''_raw'', JStr raw)])
                           (world st))) of
              Inl e \<Rightarrow> msgs | Inr c \<Rightarrow> msgs @ [Msg_tool (tc_id tc) c],
            \<lparr> world = snd (t_handler t (if raw = [] then JObj [] else JObj [(''_raw'', JStr raw)])
                              (world st)),
              trace = trace st @
                [Invocation (prop_key (tc_name tc))
                   (if raw = [] then JObj [] else JObj [(''_raw'', JStr raw)])] \<rparr>)"
proof -
  let ?args = "if raw = [] then JObj [] else JObj [(''_raw'', JStr raw)]"
  have a: "parse_args rt (tc_arguments tc) = ?args"
    using assms(1,2) by (simp add: parse_args_def)
  obtain oc w where h: "t_handler t ?args (world st) = (oc, w)"
    by (cases "t_handler t ?args (world st)")
  show ?thesis
    using assms(3) a h
    by (cases "reply (Number_toString rt) oc") (simp_all add: exec_tool_call_def Let_def emit_def)
qed

text \<open>
  The raw arguments \<open>{bad\<close> reach \<open>echo\<close> inside the sentinel object, and its result is
  the content of the tool message.
\<close>

theorem arguments_given_to_handler_witness:
  "tc_arguments (request ''c1'' ''echo'' ''{bad'') = Some ''{bad''
   \<and> JSON_parse scripted ''{bad'' = None
   \<and> registry_get (toolRegistry (ready (agent_with [echo] 3 2)))
        (prop_key (tc_name (request ''c1'' ''echo'' ''{bad''))) = Tool echo
   \<and> exec_tool_call scripted (ready (agent_with [echo] 3 2))
        (request ''c1'' ''echo'' ''{bad'') [] (start [])
       = (None, [Msg_tool ''c1'' (JStr ''{}'')],
          \<lparr> world = [], trace = [Invocation ''echo'' (JObj [(''_raw'', JStr ''{bad'')])] \<rparr>)"
proof -
  let ?ag = "ready (agent_with [echo] 3 2)"
  let ?tc = "request ''c1'' ''echo'' ''{bad''"
  have a: "tc_arguments ?tc = Some ''{bad''" by (simp add: tc_arguments_def request_def)
  have p: "JSON_parse scripted ''{bad'' = None" by (simp add: scripted_def parse_defs)
  have r: "registry_get (toolRegistry ?ag) (prop_key (tc_name ?tc)) = Tool echo"
    by (simp add: world_defs run_defs)
  from arguments_given_to_handler [OF a p r, of "[]" "start []"] a p r show ?thesis
    by (simp add: start_def request_def tc_name_def prop_key_def opt_or_def echo_def
        reply_def toolContent_def str_or_def scripted_def)
qed

text \<open>
  C7 as stated fails: the empty string does not parse as JSON, and \<open>echo\<close> is invoked
  with the empty object, not with the sentinel.
\<close>

theorem empty_arguments_not_sentinel:
  "tc_arguments (request ''c1'' ''echo'' '''') = Some ''''
   \<and> JSON_parse scripted '''' = None
   \<and> trace (snd (snd (exec_tool_call scripted (ready (agent_with [echo] 3 2))
        (request ''c1'' ''echo'' '''') [] (start []))))
       = [Invocation ''echo'' (JObj [])]
   \<and> JObj [] \<noteq> JObj [(''_raw'', JStr '''')]"
  by (simp add: world_defs run_defs parse_defs)

text \<open>
  The content of the tool message for a result that is a modelled value: the result
  itself when it is a string; otherwise, when it is not \<open>undefined\<close>, the text that
  \<open>JSON.stringify\<close> gives.
\<close>

lemma value_result_content:
  assumes "registry_get (toolRegistry ag) (prop_key (tc_name tc)) = Tool t"
    and "t_handler t (parse_args rt (tc_arguments tc)) (world st) = (Returns (Value res), w)"
  shows "\<exists>c. fst (snd (exec_tool_call rt ag tc msgs st)) = msgs @ [Msg_tool (tc_id tc) c]
           \<and> (\<forall>s. res = JStr s \<longrightarrow> c = JStr s)
           \<and> ((\<forall>s. res \<noteq> JStr s) \<and> res \<noteq> JUndefined
                \<longrightarrow> (\<exists>t. JSON_stringify (Number_toString rt) res = Some t \<and> c = JStr t))"
proof -
  obtain c where c: "toolContent (Number_toString rt) None (Value res) = Inr c"
    by (cases res) (simp_all add: toolContent_def str_or_def)
  then have e: "fst (snd (exec_tool_call rt ag tc msgs st)) = msgs @ [Msg_tool (tc_id tc) c]"
    using assms by (simp add: exec_tool_call_def Let_def reply_def)
  from c have s: "\<forall>s. res = JStr s \<longrightarrow> c = JStr s"
    by (auto simp: toolContent_def str_or_def)
  from c have d: "(\<forall>s. res \<noteq> JStr s) \<and> res \<noteq> JUndefined
             \<longrightarrow> (\<exists>t. JSON_stringify (Number_toString rt) res = Some t \<and> c = JStr t)"
    by (cases res) (auto simp: toolContent_def str_or_def)
  from e s d show ?thesis by blast
qed

text \<open>\<open>callTool\<close> gives \<open>null\<close> for a remote tool that returns \<open>undefined\<close>.\<close>

lemma callTool_nothing:
  assumes "ad_client ad"
    and "sdk_callTool rt (ad_cfg ad) toolName args w = (Returns (Value JUndefined), w')"
  shows "callTool rt ad toolName args w = (Returns (Value JNull), w')"
  using assms by (simp add: callTool_def)

text \<open>
  C8. The code has no content for a handler that returns nothing: \<open>quiet\<close> returns
  \<open>undefined\<close>, which is no string and for which \<open>JSON.stringify\<close> gives
  \<open>undefined\<close>, and that is the content of the tool message; no text is carried and
  nothing reads back. And for the \<open>BigInt\<close> that \<open>count\<close> returns \<open>JSON.stringify\<close>
  throws: no tool message is appended and the dispatch throws.
\<close>

theorem result_without_text:
  "registry_get (toolRegistry (ready (agent_with [quiet, count] 3 2)))
      (prop_key (tc_name (request ''c1'' ''quiet'' ''{}''))) = Tool quiet
   \<and> t_handler quiet (parse_args scripted (tc_arguments (request ''c1'' ''quiet'' ''{}'')))
        (world (start []))
       = (Returns (Value JUndefined), [])
   \<and> JSON_stringify (Number_toString scripted) JUndefined = None
   \<and> exec_tool_call scripted (ready (agent_with [quiet, count] 3 2))
        (request ''c1'' ''quiet'' ''{}'') [] (start [])
       = (None, [Msg_tool ''c1'' JUndefined],
          \<lparr> world = [], trace = [Invocation ''quiet'' (JObj [])] \<rparr>)
   \<and> exec_tool_call scripted (ready (agent_with [quiet, count] 3 2))
        (request ''c2'' ''count'' ''{}'') [] (start [])
       = (Some (ErrorObj ''Do not know how to serialize a BigInt''), [],
          \<lparr> world = [], trace = [Invocation ''count'' (JObj [])] \<rparr>)"
  by (simp add: world_defs run_defs parse_defs)

text \<open>
  What the dispatch does with a name the registry does not resolve, and with a handler
  that throws.
\<close>

lemma missing_tool_reported:
  assumes "registry_get (toolRegistry ag) (prop_key (tc_name tc)) = Missing"
  shows "exec_tool_call rt ag tc msgs st =
           (None,
            msgs @ [Msg_tool (tc_id tc) (JStr (''Tool '' @ prop_key (tc_name tc) @ '' not found.''))],
            st)"
  using assms by (simp add: exec_tool_call_def Let_def)

lemma fresh_registry_missing:
  assumes "proto reg = None" and "map_of (own reg) key = None"
    and "key \<notin> set object_prototype_keys"
  shows "registry_get reg key = Missing"
  using assms by (simp add: registry_get_def)

lemma handler_failure_reported:
  assumes "registry_get (toolRegistry ag) (prop_key (tc_name tc)) = Tool t"
    and "t_handler t (parse_args rt (tc_arguments tc)) (world st) = (Throws e, w)"
    and "describe (Number_toString rt) e = Inr d"
  shows "fst (snd (exec_tool_call rt ag tc msgs st)) =
           msgs @ [Msg_tool (tc_id tc) (if d = [] then JUndefined else JStr (''__error__: '' @ d))]"
  using assms by (simp add: exec_tool_call_def Let_def reply_def toolContent_def str_or_def)

lemma handler_failure_undescribed:
  assumes "registry_get (toolRegistry ag) (prop_key (tc_name tc)) = Tool t"
    and "t_handler t (parse_args rt (tc_arguments tc)) (world st) = (Throws e, w)"
    and "describe (Number_toString rt) e = Inl x"
  shows "fst (exec_tool_call rt ag tc msgs st) = Some x
         \<and> fst (snd (exec_tool_call rt ag tc msgs st)) = msgs"
  using assms by (simp add: exec_tool_call_def Let_def reply_def)

text \<open>
  C4 at a handler that throws \<open>new Error("")\<close>: the description is empty, so \<open>error\<close>
  is falsy and the tool message carries \<open>undefined\<close> instead of the error marker. With
  the description \<open>boom\<close> the marker is there.
\<close>

theorem empty_failure_description_unmarked:
  "registry_get (toolRegistry (ready (agent_with [failing ''''] 3 2)))
      (prop_key (tc_name (request ''c1'' ''failing'' ''{}''))) = Tool (failing '''')
   \<and> t_handler (failing '''') (JObj []) [] = (Throws (ErrorObj ''''), [])
   \<and> fst (snd (exec_tool_call scripted (ready (agent_with [failing ''''] 3 2))
        (request ''c1'' ''failing'' ''{}'') [] (start [])))
       = [Msg_tool ''c1'' JUndefined]
   \<and> fst (snd (exec_tool_call scripted (ready (agent_with [failing ''boom''] 3 2))
        (request ''c1'' ''failing'' ''{}'') [] (start [])))
       = [Msg_tool ''c1'' (JStr ''__error__: boom'')]"
  by (simp add: world_defs run_defs parse_defs)

text \<open>
  C5 at the name \<open>toString\<close>, which is not registered: the registry is a plain
  object, the lookup finds the member inherited from \<open>Object.prototype\<close>, and the
  tool message reports a failed call instead of a tool that is not found. The name
  \<open>missing\<close> is reported as not found.
\<close>

theorem inherited_name_not_missing:
  "map_of (own (toolRegistry (ready (agent_with [echo] 3 2)))) ''toString'' = None
   \<and> fst (snd (exec_tool_call scripted (ready (agent_with [echo] 3 2))
        (request ''c1'' ''toString'' ''{}'') [] (start [])))
       = [Msg_tool ''c1'' (JStr ''__error__: tool.handler is not a function'')]
   \<and> fst (snd (exec_tool_call scripted (ready (agent_with [echo] 3 2))
        (request ''c2'' ''missing'' ''{}'') [] (start [])))
       = [Msg_tool ''c2'' (JStr ''Tool missing not found.'')]"
  by (simp add: world_defs run_defs parse_defs)

section \<open>The text coercion\<close>

lemma join_strs_empty: "join_strs [] xs = concat xs"
  by (induction xs rule: induct_list012) simp_all

lemma part_value_text:
  "(if part_value p = JUndefined \<or> part_value p = JNull then Inr []
    else js_String big (part_value p)) = part_text big p"
proof (cases p)
  case (JObj kvs)
  show ?thesis
  proof (cases "map_of kvs ''text''")
    case None
    with JObj show ?thesis by (simp add: part_value_def js_or_def)
  next
    case (Some t)
    with JObj show ?thesis by (cases t) (simp_all add: part_value_def js_or_def)
  qed
qed (simp_all add: part_value_def js_or_def)

text \<open>
  C6, as the code has it. A string is its own coerced text. A sequence of parts gives
  the concatenation of the parts' texts, and throws when the text of a part cannot be
  stringified. An object with a \<open>text\<close> property gives that property as it is, of
  whatever type. An object without one is stringified, which gives \<open>[object Object]\<close>
  or throws when the object has a property \<open>toString\<close>. \<open>undefined\<close> and \<open>null\<close>
  give the empty string, a boolean and a number their stringification.
\<close>

theorem coerceText_rule:
  "coerceText big (JStr s) = Inr (JStr s)
   \<and> coerceText big (JArr parts)
       = (case all_right (map (part_text big) parts) of
            Inl e \<Rightarrow> Inl e
          | Inr ts \<Rightarrow> Inr (JStr (concat ts)))
   \<and> coerceText big (JObj kvs)
       = (case map_of kvs ''text'' of
            Some t \<Rightarrow> Inr t
          | None \<Rightarrow>
              if map_of kvs ''toString'' = None then Inr (JStr ''[object Object]'')
              else Inl (ErrorObj ''Cannot convert object to primitive value''))
   \<and> coerceText big JUndefined = Inr (JStr [])
   \<and> coerceText big JNull = Inr (JStr [])
   \<and> coerceText big (JBool b) = Inr (JStr (if b then ''true'' else ''false''))
   \<and> coerceText big (JNum i) = Inr (JStr (if safe i then show_int i else big i))"
proof (intro conjI)
  have "js_join big (map part_value parts) []
          = (case all_right (map (part_text big) parts) of
               Inl e \<Rightarrow> Inl e
             | Inr ts \<Rightarrow> Inr (concat ts))"
    by (simp add: js_join_def join_strs_empty comp_def part_value_text split: sum.splits)
  then show "coerceText big (JArr parts)
       = (case all_right (map (part_text big) parts) of
            Inl e \<Rightarrow> Inl e
          | Inr ts \<Rightarrow> Inr (JStr (concat ts)))"
    by (simp add: as_text_def split: sum.splits)
next
  show "coerceText big (JObj kvs)
       = (case map_of kvs ''text'' of
            Some t \<Rightarrow> Inr t
          | None \<Rightarrow>
              if map_of kvs ''toString'' = None then Inr (JStr ''[object Object]'')
              else Inl (ErrorObj ''Cannot convert object to primitive value''))"
    by (cases "map_of kvs ''text''") (auto simp: js_nullish_def as_text_def no_primitive_def)
qed (simp_all add: js_nullish_def as_text_def number_text_def)

text \<open>
  C6 as stated fails. The content \<open>{"toString": 1}\<close> is an object without a text
  field, and a part \<open>{"text": {"toString": 1}}\<close> has a text: stringifying them throws
  a \<open>TypeError\<close>, and there is no coerced text. A part whose text is \<open>0\<close> has a text
  and contributes nothing. An object whose text field is \<open>5\<close> gives the number, which
  is no text.
\<close>

theorem content_without_text:
  "coerceText (Number_toString scripted) (JObj [(''toString'', JNum 1)])
     = Inl (ErrorObj ''Cannot convert object to primitive value'')
   \<and> coerceText (Number_toString scripted)
       (JArr [JStr ''a'', JObj [(''text'', JObj [(''toString'', JNum 1)])]])
     = Inl (ErrorObj ''Cannot convert object to primitive value'')
   \<and> coerceText (Number_toString scripted) (JArr [JStr ''a'', JObj [(''text'', JNum 0)]])
     = Inr (JStr ''a'')
   \<and> coerceText (Number_toString scripted) (JObj [(''text'', JNum 5)]) = Inr (JNum 5)"
  by (simp add: js_nullish_def as_text_def no_primitive_def js_join_def part_value_def js_or_def)
end
